theory Spec2Isabelle
  imports Main "HOL-Library.Sublist" "HOL-Library.Multiset"
begin

section \<open>Python strings\<close>

text \<open>
  A Python \<open>str\<close> is a sequence of code points. The model is \<open>string\<close>, one
  \<open>char\<close> per code point, which covers the code points U+0000 to U+00FF (ASCII and
  the Latin-1 supplement). On that range \<open>str.lower\<close> maps one code point to one code
  point, so \<open>len\<close> is \<open>length\<close>.
\<close>

definition isupper_char :: "char \<Rightarrow> bool" where
  \<comment> \<open>\<open>c.isupper()\<close> for a single code point below 256: A-Z and the capital letters
      U+00C0..U+00DE without the multiplication sign U+00D7\<close>
  "isupper_char c =
     (let n = (of_char c :: nat)
      in (65 \<le> n \<and> n \<le> 90) \<or> (192 \<le> n \<and> n \<le> 222 \<and> n \<noteq> 215))"

definition isalpha_char :: "char \<Rightarrow> bool" where
  \<comment> \<open>\<open>c.isalpha()\<close> for a single code point below 256: the letters of ASCII, the
      ordinal indicators U+00AA and U+00BA, the micro sign U+00B5, and U+00C0..U+00FF
      without the multiplication and division signs\<close>
  "isalpha_char c =
     (let n = (of_char c :: nat)
      in (65 \<le> n \<and> n \<le> 90) \<or> (97 \<le> n \<and> n \<le> 122) \<or> n = 170 \<or> n = 181 \<or> n = 186
         \<or> (192 \<le> n \<and> n \<noteq> 215 \<and> n \<noteq> 247))"

definition lower_char :: "char \<Rightarrow> char" where
  \<comment> \<open>\<open>c.lower()\<close> for a single code point below 256: every uppercase letter of the
      range has its lowercase letter 32 code points further\<close>
  "lower_char c = (if isupper_char c then char_of ((of_char c :: nat) + 32) else c)"

definition lower :: "string \<Rightarrow> string" where
  \<comment> \<open>\<open>s.lower()\<close>\<close>
  "lower s = map lower_char s"

definition isalpha :: "string \<Rightarrow> bool" where
  \<comment> \<open>\<open>s.isalpha()\<close>: at least one character, and all of them alphabetic\<close>
  "isalpha s = (s \<noteq> [] \<and> list_all isalpha_char s)"

definition endswith :: "string \<Rightarrow> string \<Rightarrow> bool" where
  \<comment> \<open>\<open>s.endswith(t)\<close>\<close>
  "endswith s t = suffix t s"

definition contains :: "string \<Rightarrow> string \<Rightarrow> bool" where
  \<comment> \<open>\<open>t in s\<close> for two strings: \<open>t\<close> is a contiguous part of \<open>s\<close>\<close>
  "contains s t = sublist t s"

section \<open>filter\_words.py: the curated sets\<close>

definition PROFANITY :: "string list" where
  "PROFANITY =
    [
     ''ass'', ''arse'', ''asshole'', ''bastard'', ''bitch'', ''bollocks'', ''crap'',
     ''cunt'', ''damn'', ''dick'', ''fuck'', ''fucking'', ''piss'', ''shit'', ''slut'',
     ''whore'', ''fisting'', ''floozie'', ''cock'', ''coitus'']"

definition ABSTRACT_SUFFIXES :: "string list" where
  "ABSTRACT_SUFFIXES =
    [
     ''tion'', ''sion'', ''ment'', ''ness'', ''ity'', ''ty'', ''ance'', ''ence'', ''ship'',
     ''hood'', ''dom'', ''ism'', ''ization'', ''isation'', ''age'', ''ery'', ''ry'', ''cy'']"

text \<open>
  \<open>ABSTRACT_WORDS\<close> is a set literal that repeats some of its words; the list below
  keeps the literal as it is written, and the code only tests membership.
\<close>

definition ABSTRACT_WORDS :: "string list" where
  "ABSTRACT_WORDS =
    [
     ''ability'', ''abnormality'', ''abolishment'', ''abortion'', ''abrogation'',
     ''absence'', ''abuse'', ''acceptance'', ''accomplishment'', ''accord'', ''accordance'',
     ''accountability'', ''accuracy'', ''accusation'', ''achievement'', ''acknowledgment'',
     ''activation'', ''activity'', ''adaptation'', ''addiction'', ''adjustment'',
     ''administration'', ''admission'', ''adoption'', ''advance'', ''advancement'',
     ''advantage'', ''advent'', ''advertising'', ''advice'', ''advocacy'', ''affair'',
     ''affect'', ''affinity'', ''aftermath'', ''agency'', ''aggression'', ''agony'',
     ''agreement'', ''aid'', ''aim'', ''alarm'', ''alert'', ''allegation'', ''allocation'',
     ''allowance'', ''amazement'', ''ambiguity'', ''ambition'', ''amendment'', ''amnesty'',
     ''amusement'', ''analgesia'', ''anarchy'', ''anger'', ''angina'', ''anguish'',
     ''animation'', ''announcement'', ''answer'', ''anticipation'', ''anxiety'',
     ''apology'', ''appeal'', ''appearance'', ''appellation'', ''appetite'', ''applause'',
     ''application'', ''appointment'', ''appreciation'', ''apprehension'', ''approach'',
     ''appropriation'', ''approval'', ''argument'', ''arithmetic'', ''arrangement'',
     ''array'', ''arrest'', ''arrival'', ''arrogance'', ''art'', ''ascend'', ''ascent'',
     ''aside'', ''aspect'', ''aspiration'', ''assassination'', ''assault'', ''assembly'',
     ''assertion'', ''assessment'', ''assignment'', ''assistance'', ''association'',
     ''assumption'', ''assurance'', ''asymmetry'', ''attempt'', ''attendance'',
     ''attention'', ''attenuation'', ''attitude'', ''attraction'', ''attribute'',
     ''authentication'', ''authenticity'', ''authorisation'', ''authority'',
     ''authorization'', ''autoimmunity'', ''automation'', ''availability'', ''avalanche'',
     ''average'', ''aversion'', ''award'', ''awareness'', ''awe'', ''backburn'',
     ''backdrop'', ''background'', ''backup'', ''bafflement'', ''bail'', ''balance'',
     ''ban'', ''bandwidth'', ''banking'', ''bankruptcy'', ''bargain'', ''barrage'',
     ''barrier'', ''baseline'', ''basics'', ''basis'', ''batting'', ''battle'', ''beat'',
     ''beating'', ''beauty'', ''beginning'', ''behalf'', ''behavior'', ''behaviour'',
     ''beheading'', ''behest'', ''behold'', ''being'', ''belief'', ''belligerency'',
     ''benefit'', ''best-seller'', ''bestseller'', ''bet'', ''betray'', ''betrayal'',
     ''betting'', ''beverage'', ''beyond'', ''bias'', ''bibliography'', ''bid'',
     ''bidding'', ''billing'', ''billion'', ''biography'', ''biology'', ''biopsy'',
     ''birth'', ''birthday'', ''bit'', ''bite'', ''bitter'', ''bitterness'', ''blackness'',
     ''blame'', ''blank'', ''blast'', ''bleeding'', ''blend'', ''blessing'', ''blight'',
     ''blindness'', ''bliss'', ''blow'', ''blue'', ''blunder'', ''blur'', ''blush'',
     ''boast'', ''boasting'', ''body'', ''boil'', ''bombing'', ''bond'', ''bonding'',
     ''bonus'', ''booking'', ''boolean'', ''boom'', ''boon'', ''boost'', ''border'',
     ''bore'', ''boredom'', ''borrowing'', ''bother'', ''bottom'', ''bottom-line'',
     ''bout'', ''boundary'', ''bout'', ''boycott'', ''boyhood'', ''bracket'', ''brag'',
     ''bragging'', ''brain'', ''brand'', ''bravery'', ''breach'', ''break'', ''breakdown'',
     ''breakfast'', ''breakpoint'', ''breakthrough'', ''breath'', ''breathing'', ''breed'',
     ''breeding'', ''breeze'', ''bribery'', ''brief'', ''briefing'', ''briefly'',
     ''brightness'', ''brilliance'', ''brilliant'', ''brink'', ''broadcast'',
     ''brotherhood'', ''browsing'', ''brunch'', ''brushing'', ''brutality'', ''bubble'',
     ''budget'', ''build'', ''building'', ''bulk'', ''bulletin'', ''bullying'', ''bump'',
     ''bunch'', ''bundle'', ''burden'', ''burial'', ''burn'', ''burn-out'', ''burning'',
     ''burst'', ''business'', ''bust'', ''bustle'', ''buy'', ''buyer'', ''buying'',
     ''buzz'', ''adulthood'', ''afternoon'', ''afterlife'', ''aftershock'',
     ''afterthought'', ''age'', ''boyhood'', ''century'', ''childhood'', ''dawn'', ''day'',
     ''daylight'', ''deadline'', ''decade'', ''delay'', ''duration'', ''dusk'', ''era'',
     ''eternity'', ''eve'', ''evening'', ''event'', ''forever'', ''fortnight'', ''future'',
     ''girlhood'', ''hour'', ''interval'', ''lifespan'', ''lifetime'', ''manhood'',
     ''midnight'', ''millennium'', ''minute'', ''moment'', ''month'', ''morning'',
     ''night'', ''nightfall'', ''nighttime'', ''noon'', ''past'', ''period'', ''present'',
     ''season'', ''second'', ''semester'', ''shift'', ''spell'', ''springtime'',
     ''summertime'', ''sunrise'', ''sunset'', ''teatime'', ''term'', ''time'',
     ''timeframe'', ''timeline'', ''tomorrow'', ''tonight'', ''twilight'', ''week'',
     ''weekend'', ''while'', ''wintertime'', ''year'', ''yesterday'', ''youth'', ''act'',
     ''action'', ''activation'', ''activity'', ''adaptation'', ''addition'', ''adjustment'',
     ''adoption'', ''advance'', ''advancement'', ''advertising'', ''advocacy'',
     ''allocation'', ''alteration'', ''amendment'', ''analysis'', ''animation'',
     ''announcement'', ''application'', ''approach'', ''appropriation'', ''arrangement'',
     ''arrest'', ''arrival'', ''ascent'', ''assassination'', ''assault'', ''assembly'',
     ''assessment'', ''assignment'', ''assist'', ''assistance'', ''association'',
     ''attack'', ''attainment'', ''attempt'', ''attendance'', ''attenuation'',
     ''authentication'', ''authorization'', ''automation'', ''backup'', ''banking'',
     ''bargain'', ''barrage'', ''battle'', ''beat'', ''beating'', ''beginning'',
     ''behavior'', ''behaviour'', ''beheading'', ''betrayal'', ''betting'', ''bid'',
     ''bidding'', ''billing'', ''birth'', ''bite'', ''blackmail'', ''blast'', ''bleeding'',
     ''blend'', ''blessing'', ''blight'', ''blink'', ''blow'', ''boast'', ''boasting'',
     ''boil'', ''bombing'', ''bonding'', ''booking'', ''boom'', ''boost'', ''bore'',
     ''borrowing'', ''bounce'', ''bout'', ''boycott'', ''bragging'', ''branding'',
     ''breach'', ''break'', ''breakdown'', ''breakthrough'', ''breath'', ''breathing'',
     ''breed'', ''breeding'', ''bribery'', ''broadcast'', ''browsing'', ''brushing'',
     ''build'', ''building'', ''bullying'', ''bump'', ''burn'', ''burning'', ''burst'',
     ''business'', ''buy'', ''buying'', ''buzz'', ''academics'', ''accompanist'',
     ''accountant'', ''achiever'', ''activist'', ''actor'', ''actress'', ''admin'',
     ''administrator'', ''adult'', ''adviser'', ''advocate'', ''agent'', ''aide'',
     ''airman'', ''alien'', ''allergist'', ''ally'', ''ambassador'', ''analyst'',
     ''anarchist'', ''ancestor'', ''angel'', ''anesthesiologist'', ''announcer'',
     ''antagonist'', ''anthropologist'', ''anybody'', ''anyone'', ''applicant'',
     ''archaeologist'', ''archer'', ''architect'', ''aristocrat'', ''artist'',
     ''assistant'', ''associate'', ''astronaut'', ''astronomer'', ''atheist'', ''athlete'',
     ''attendant'', ''attorney'', ''audience'', ''aunt'', ''author'', ''baby'', ''babe'',
     ''bachelor'', ''badger'', ''baker'', ''ballerina'', ''balloonist'', ''bandleader'',
     ''bandit'', ''banker'', ''barber'', ''bard'', ''baritone'', ''bartender'', ''bather'',
     ''batman'', ''beggar'', ''beginner'', ''believer'', ''beneficiary'', ''bidder'',
     ''billionaire'', ''biographer'', ''biologist'', ''blacksmith'', ''blogger'', ''bloke'',
     ''boarder'', ''boatman'', ''bodyguard'', ''bondsman'', ''bookkeeper'', ''boss'',
     ''bouncer'', ''boy'', ''boyfriend'', ''bride'', ''bridesmaid'', ''brigadier'',
     ''broadcaster'', ''broker'', ''brother'', ''brother-in-law'', ''buddy'', ''builder'',
     ''burglar'', ''businessman'', ''businesswoman'', ''butcher'', ''butler'', ''buyer'',
     ''bystander'', ''brotherhood'', ''citizenship'', ''comradeship'', ''companionship'',
     ''courtship'', ''fellowship'', ''fatherhood'', ''friendship'', ''kinship'',
     ''leadership'', ''membership'', ''motherhood'', ''ownership'', ''parenthood'',
     ''partnership'', ''relationship'', ''sisterhood'', ''sportsmanship'', ''stewardship'',
     ''apprenticeship'', ''dictatorship'', ''guardianship'', ''hardship'', ''internship'',
     ''kingship'', ''kinship'', ''lordship'', ''partnership'', ''readership'',
     ''scholarship'', ''sponsorship'', ''trusteeship'', ''workmanship'']"

definition ABSTRACT_KEYWORDS :: "string list" where
  "ABSTRACT_KEYWORDS =
    [
     ''abundance'', ''amount'', ''capacity'', ''degree'', ''depth'', ''dimension'',
     ''distance'', ''extent'', ''height'', ''length'', ''level'', ''magnitude'',
     ''measure'', ''portion'', ''quantity'', ''ratio'', ''scale'', ''scope'', ''size'',
     ''total'', ''volume'', ''weight'', ''width'', ''condition'', ''situation'', ''state'',
     ''status'', ''circumstance'', ''position'', ''concept'', ''idea'', ''notion'',
     ''theory'', ''thought'', ''principle'', ''hypothesis'', ''philosophy'', ''ideology'',
     ''quality'', ''characteristic'', ''feature'', ''trait'', ''attribute'', ''property'',
     ''process'', ''procedure'', ''method'', ''system'', ''technique'', ''approach'',
     ''strategy'', ''law'', ''legislation'', ''regulation'', ''rule'', ''policy'',
     ''protocol'', ''statute'', ''analysis'', ''research'', ''study'', ''investigation'',
     ''examination'', ''evaluation'', ''assessment'']"

text \<open>
  The list of exceptions is written inline in \<open>is_abstract_noun\<close>, inside the loop
  over the suffixes.
\<close>

definition SUFFIX_EXCEPTIONS :: "string list" where
  "SUFFIX_EXCEPTIONS =
    [
     ''station'', ''nation'', ''ration'', ''portion'', ''motion'', ''lotion'', ''potion'',
     ''cushion'', ''fashion'', ''mansion'', ''passion'', ''session'', ''mission'',
     ''television'', ''prison'', ''poison'', ''bison'', ''melon'', ''lemon'', ''demon'',
     ''summon'', ''common'', ''salmon'', ''cotton'', ''button'', ''mutton'', ''mitten'',
     ''kitten'', ''garden'', ''warden'', ''burden'', ''golden'', ''wooden'', ''sudden'']"

section \<open>filter\_words.py: the heuristic classifier\<close>

text \<open>
  The loop \<open>for suffix in ABSTRACT_SUFFIXES\<close> of \<open>is_abstract_noun\<close>: it returns
  True at the first suffix that the lowercase word ends with, unless the lowercase word
  is one of the exceptions, in which case it goes on with the next suffix. The result
  False stands for the loop ending without a return.
\<close>

fun suffix_loop :: "string \<Rightarrow> string list \<Rightarrow> bool" where
  "suffix_loop word_lower [] = False"
| "suffix_loop word_lower (sfx # rest) =
     (if endswith word_lower sfx
      then (if word_lower \<in> set SUFFIX_EXCEPTIONS then suffix_loop word_lower rest else True)
      else suffix_loop word_lower rest)"

definition is_abstract_noun :: "string \<Rightarrow> bool" where
  "is_abstract_noun word =
     (let word_lower = lower word
      in if word_lower \<in> set ABSTRACT_WORDS then True
         else if word_lower \<in> set ABSTRACT_KEYWORDS then True
         else if length word > 7 \<and> suffix_loop word_lower ABSTRACT_SUFFIXES then True
         else False)"

definition is_profane :: "string \<Rightarrow> bool" where
  "is_profane word = (lower word \<in> set PROFANITY)"

definition should_filter :: "string \<Rightarrow> bool" where
  "should_filter word =
     (if is_profane word then True
      else if is_abstract_noun word then True
      else False)"

text \<open>
  \<open>should_filter\<close> returns a truth value only. \<open>should_filter_verdict\<close> follows the
  same two tests and records which of the three return statements is taken: the one
  under the profanity test, the one under the abstract-noun test, or the last one.
\<close>

datatype verdict = Profane | Abstract | Keep

definition should_filter_verdict :: "string \<Rightarrow> verdict" where
  "should_filter_verdict word =
     (if is_profane word then Profane
      else if is_abstract_noun word then Abstract
      else Keep)"

section \<open>filter\_words.py: the loop of main\<close>

text \<open>
  The state of the loop \<open>for word in words\<close> is the pair of the two lists that the
  loop appends to, \<open>filtered_words\<close> and \<open>removed_words\<close>.
\<close>

fun main_loop :: "string list \<Rightarrow> string list \<times> string list \<Rightarrow> string list \<times> string list" where
  "main_loop [] (filtered_words, removed_words) = (filtered_words, removed_words)"
| "main_loop (word # rest) (filtered_words, removed_words) =
     (if should_filter word
      then main_loop rest (filtered_words, removed_words @ [word])
      else main_loop rest (filtered_words @ [word], removed_words))"

definition partition_words :: "string list \<Rightarrow> string list \<times> string list" where
  \<comment> \<open>the loop started as \<open>main\<close> starts it, with both lists empty\<close>
  "partition_words words = main_loop words ([], [])"

section \<open>generate\_nouns.py: the taxonomy\<close>

text \<open>
  The classifier reads three things of a WordNet synset: the names \<open>h.name()\<close> of the
  synsets on each of its hypernym paths, its definition, and its instance hypernyms (of
  which only emptiness is tested). The taxonomy itself is the function
  \<open>wn.synsets(word, pos=wn.NOUN)\<close>, a parameter of the model.
\<close>

record synset =
  hypernym_paths :: "string list list"
  definition_of :: string
  instance_hypernyms :: "string list"

type_synonym taxonomy = "string \<Rightarrow> synset list"

definition abstract_roots :: "string list" where
  "abstract_roots =
    [
     ''abstraction.n.06'', ''psychological_feature.n.01'', ''attribute.n.02'',
     ''state.n.04'', ''event.n.01'', ''act.n.02'', ''group.n.01'', ''measure.n.02'',
     ''time_period.n.01'', ''relation.n.01'', ''communication.n.02'', ''content.n.05'',
     ''possession.n.02'', ''social_group.n.01'', ''body_part.n.01'',
     ''internal_organ.n.01'', ''person.n.01'', ''human.n.01'', ''worker.n.01'',
     ''adult.n.01'', ''juvenile.n.01'', ''national.n.01'', ''native.n.03'',
     ''resident.n.01'', ''inhabitant.n.01'', ''professional.n.01'', ''skilled_worker.n.01'',
     ''organization.n.01'', ''establishment.n.01'']"

definition concrete_roots :: "string list" where
  "concrete_roots =
    [
     ''physical_entity.n.01'', ''object.n.01'', ''artifact.n.01'', ''natural_object.n.01'',
     ''living_thing.n.01'', ''organism.n.01'', ''whole.n.02'']"

definition abstract_keywords :: "string list" where
  "abstract_keywords =
    [
     ''concept of'', ''idea of'', ''theory of'', ''principle of'', ''state of being'',
     ''feeling of'', ''emotion of'', ''the act of'', ''the action of'', ''the process of'',
     ''the activity of'', ''the event of'']"

definition technical_keywords :: "string list" where
  "technical_keywords =
    [
     ''drug used'', ''medicine'', ''pharmaceutical'', ''medication'', ''chemical compound'',
     ''enzyme'', ''hormone'', ''protein'', ''antibiotic'', ''trademark'', ''trade name'',
     ''brand name'', ''physics'', ''chemistry'', ''particle'', ''subatomic'', ''molecular'',
     ''atom'', ''ion'', ''transmits'', ''duplicator'', ''device for'', ''apparatus'',
     ''instrument for measuring'', ''amphetamine'', ''anesthetic'', ''crystalline'',
     ''sedative'', ''stimulant'', ''analgesic'', ''ester'', ''alkaloid'', ''steroid'',
     ''vitamin'', ''fossil'', ''extinct'']"

definition formal_suffixes :: "string list" where
  "formal_suffixes =
    [
     ''tion'', ''sion'', ''ism'', ''ity'', ''ness'', ''ment'', ''ence'', ''ance'']"

section \<open>generate\_nouns.py: the taxonomy-based classifier\<close>

definition hypernyms_of :: "synset \<Rightarrow> string set" where
  \<comment> \<open>the set \<open>hypernyms\<close>, updated with the names on every path\<close>
  "hypernyms_of synset =
     fold (\<lambda>path hypernyms. hypernyms \<union> set path) (hypernym_paths synset) {}"

text \<open>
  The loop \<open>for synset in synsets\<close>: each \<open>continue\<close> is the recursive call on the
  remaining synsets, \<open>return True\<close> ends the loop, and the result False stands for the
  loop ending without a return.
\<close>

fun synset_loop :: "string \<Rightarrow> synset list \<Rightarrow> bool" where
  "synset_loop word [] = False"
| "synset_loop word (synset # rest) =
     (let hypernyms = hypernyms_of synset
      in if hypernyms \<inter> set concrete_roots = {} then synset_loop word rest
         else if hypernyms \<inter> set abstract_roots \<noteq> {} then synset_loop word rest
         else
           let definition = lower (definition_of synset)
           in if list_ex (contains definition) abstract_keywords then synset_loop word rest
              else if list_ex (contains definition) technical_keywords
                then synset_loop word rest
              else if length word > 8 \<and> list_ex (endswith word) formal_suffixes
                      \<and> (contains definition ''reproduction''
                           \<or> contains definition ''duplication''
                           \<or> contains definition ''replication'')
                then synset_loop word rest
              else True)"

definition is_concrete_noun :: "taxonomy \<Rightarrow> string \<Rightarrow> bool" where
  "is_concrete_noun wn word =
     (let synsets = wn word
      in if synsets = [] then False else synset_loop word synsets)"

section \<open>generate\_nouns.py: the word-validity filter\<close>

text \<open>
  \<open>word[0]\<close> raises IndexError on the empty string, so the filter returns either an
  error or a truth value.
\<close>

datatype py_error = IndexError

definition all_proper :: "synset list \<Rightarrow> bool" where
  \<comment> \<open>\<open>all(synset.instance_hypernyms() for synset in synsets)\<close>\<close>
  "all_proper synsets = list_all (\<lambda>synset. instance_hypernyms synset \<noteq> []) synsets"

definition is_valid_word :: "taxonomy \<Rightarrow> string \<Rightarrow> py_error + bool" where
  "is_valid_word wn word =
     (if \<not> isalpha word then Inr False
      else case word of
        [] \<Rightarrow> Inl IndexError
      | c # _ \<Rightarrow>
          if isupper_char c then Inr False
          else
            let synsets = wn word
            in if synsets \<noteq> [] \<and> all_proper synsets then Inr False else Inr True)"

section \<open>Sample taxonomies\<close>

definition no_senses :: taxonomy where
  \<comment> \<open>a taxonomy that knows no word\<close>
  "no_senses word = []"

definition bat_animal :: synset where
  \<comment> \<open>a sense under physical roots only, with a plain definition\<close>
  "bat_animal =
     \<lparr>hypernym_paths =
        [[''entity.n.01'', ''physical_entity.n.01'', ''object.n.01'', ''whole.n.02'',
          ''living_thing.n.01'', ''organism.n.01'', ''animal.n.01'', ''bat.n.01'']],
      definition_of = ''Nocturnal mouselike mammal with forelimbs modified to form wings'',
      instance_hypernyms = []\<rparr>"

definition bat_turn :: synset where
  \<comment> \<open>a sense under abstract roots\<close>
  "bat_turn =
     \<lparr>hypernym_paths =
        [[''entity.n.01'', ''abstraction.n.06'', ''psychological_feature.n.01'',
          ''event.n.01'', ''act.n.02'', ''turn.n.03'', ''bat.n.02'']],
      definition_of = ''a turn trying to get a hit'',
      instance_hypernyms = []\<rparr>"

definition bat_taxonomy :: taxonomy where
  \<comment> \<open>a taxonomy with one word, whose first sense is the abstract one\<close>
  "bat_taxonomy word = (if word = ''bat'' then [bat_turn, bat_animal] else [])"

section \<open>The qualifying sense, in the words of the specification\<close>

text \<open>
  These two definitions follow the specification (sections 4.1 and 4.2, steps a to d),
  not the code; the loop of \<open>is_concrete_noun\<close> is compared with them below. The
  ancestor categories of a sense are the union of the categories on its ancestor paths.
  A sense qualifies when its ancestor categories meet the concrete roots and miss the
  abstract roots, its lowercase definition contains no abstract-sense marker and no
  technical marker, and the exclusion of long words with a formal suffix whose
  definition mentions reproduction, duplication or replication does not apply.
\<close>

definition ancestor_categories :: "synset \<Rightarrow> string set" where
  "ancestor_categories sense = \<Union> (set ` set (hypernym_paths sense))"

definition sense_qualifies :: "string \<Rightarrow> synset \<Rightarrow> bool" where
  "sense_qualifies word sense \<longleftrightarrow>
     ancestor_categories sense \<inter> set concrete_roots \<noteq> {}
     \<and> ancestor_categories sense \<inter> set abstract_roots = {}
     \<and> \<not> (\<exists>marker\<in>set abstract_keywords. contains (lower (definition_of sense)) marker)
     \<and> \<not> (\<exists>marker\<in>set technical_keywords. contains (lower (definition_of sense)) marker)
     \<and> \<not> (length word > 8 \<and> (\<exists>sfx\<in>set formal_suffixes. endswith word sfx)
           \<and> (contains (lower (definition_of sense)) ''reproduction''
                \<or> contains (lower (definition_of sense)) ''duplication''
                \<or> contains (lower (definition_of sense)) ''replication''))"

section \<open>Facts about the string operations and the loops\<close>

lemma length_lower [simp]: "length (lower s) = length s"
  by (simp add: lower_def)

lemma suffix_loop_iff:
  "suffix_loop word_lower sfxs \<longleftrightarrow>
     word_lower \<notin> set SUFFIX_EXCEPTIONS \<and> (\<exists>sfx\<in>set sfxs. endswith word_lower sfx)"
  by (induction sfxs) auto

lemma is_abstract_noun_iff:
  "is_abstract_noun word \<longleftrightarrow>
     lower word \<in> set ABSTRACT_WORDS \<or> lower word \<in> set ABSTRACT_KEYWORDS
     \<or> (length word > 7 \<and> lower word \<notin> set SUFFIX_EXCEPTIONS
         \<and> (\<exists>sfx\<in>set ABSTRACT_SUFFIXES. endswith (lower word) sfx))"
  by (auto simp: is_abstract_noun_def Let_def suffix_loop_iff)

lemma should_filter_iff: "should_filter word \<longleftrightarrow> is_profane word \<or> is_abstract_noun word"
  by (simp add: should_filter_def)

section \<open>The exceptions to the suffix rule\<close>

lemma exceptions_lower: "list_all (\<lambda>w. lower w = w) SUFFIX_EXCEPTIONS"
  by (simp add: SUFFIX_EXCEPTIONS_def lower_def lower_char_def isupper_char_def)

lemma exceptions_not_profane: "list_all (\<lambda>w. w \<notin> set PROFANITY) SUFFIX_EXCEPTIONS"
  by (simp add: SUFFIX_EXCEPTIONS_def PROFANITY_def)

lemma exceptions_abstract_words:
  "list_all (\<lambda>w. w \<in> set ABSTRACT_WORDS \<longleftrightarrow> w = ''burden'') SUFFIX_EXCEPTIONS"
  by (simp add: SUFFIX_EXCEPTIONS_def ABSTRACT_WORDS_def)

lemma exceptions_abstract_keywords:
  "list_all (\<lambda>w. w \<in> set ABSTRACT_KEYWORDS \<longleftrightarrow> w = ''portion'') SUFFIX_EXCEPTIONS"
  by (simp add: SUFFIX_EXCEPTIONS_def ABSTRACT_KEYWORDS_def)

text \<open>
  Claim C1, as amended. The list of exceptions switches off the suffix rule and nothing
  else: for a word whose lowercase form is an exception, \<open>is_abstract_noun\<close> is true
  exactly when the lowercase word is in \<open>ABSTRACT_WORDS\<close> or in
  \<open>ABSTRACT_KEYWORDS\<close>, the two tests that run before the suffix rule. Every exception
  other than "portion" (an abstract keyword) and "burden" (an abstract word) is kept:
  \<open>should_filter\<close> is false.
\<close>

theorem exceptions_override_suffix_rule:
  "(lower w \<in> set SUFFIX_EXCEPTIONS \<longrightarrow>
      is_abstract_noun w
        = (lower w \<in> set ABSTRACT_WORDS \<or> lower w \<in> set ABSTRACT_KEYWORDS))
   \<and> (w \<in> set SUFFIX_EXCEPTIONS \<and> w \<noteq> ''portion'' \<and> w \<noteq> ''burden''
        \<longrightarrow> \<not> should_filter w)"
proof (intro conjI impI)
  assume "lower w \<in> set SUFFIX_EXCEPTIONS"
  then show "is_abstract_noun w
      = (lower w \<in> set ABSTRACT_WORDS \<or> lower w \<in> set ABSTRACT_KEYWORDS)"
    by (simp add: is_abstract_noun_iff)
next
  assume a: "w \<in> set SUFFIX_EXCEPTIONS \<and> w \<noteq> ''portion'' \<and> w \<noteq> ''burden''"
  then have mem: "w \<in> set SUFFIX_EXCEPTIONS" by simp
  have low: "lower w = w"
    using exceptions_lower mem by (simp add: list_all_iff)
  have "w \<notin> set PROFANITY"
    using exceptions_not_profane mem by (simp add: list_all_iff)
  moreover have "w \<notin> set ABSTRACT_WORDS"
    using exceptions_abstract_words mem a by (simp add: list_all_iff)
  moreover have "w \<notin> set ABSTRACT_KEYWORDS"
    using exceptions_abstract_keywords mem a by (simp add: list_all_iff)
  ultimately show "\<not> should_filter w"
    using mem low by (simp add: should_filter_iff is_profane_def is_abstract_noun_iff)
qed

text \<open>
  The theorem at "Television", whose lowercase form is the one exception that is long
  enough to reach the suffix rule, and at "television" itself.
\<close>

theorem exceptions_override_suffix_rule_witness:
  "lower ''Television'' \<in> set SUFFIX_EXCEPTIONS
   \<and> is_abstract_noun ''Television''
       = (lower ''Television'' \<in> set ABSTRACT_WORDS
          \<or> lower ''Television'' \<in> set ABSTRACT_KEYWORDS)
   \<and> ''television'' \<in> set SUFFIX_EXCEPTIONS \<and> \<not> should_filter ''television''"
proof -
  have l: "lower ''Television'' = ''television''"
    by code_simp
  have m: "''television'' \<in> set SUFFIX_EXCEPTIONS"
    by (simp add: SUFFIX_EXCEPTIONS_def)
  show ?thesis
    using exceptions_override_suffix_rule [of "''Television''"]
      exceptions_override_suffix_rule [of "''television''"] l m
    by simp
qed

text \<open>
  The claim as it was stated fails at "portion": it is one of the exceptions, and it is
  filtered, because the keyword test comes first.
\<close>

theorem exceptions_keep_counterexample:
  "''portion'' \<in> set SUFFIX_EXCEPTIONS \<and> should_filter ''portion''"
  by (simp add: SUFFIX_EXCEPTIONS_def should_filter_iff is_abstract_noun_iff
      ABSTRACT_KEYWORDS_def lower_def lower_char_def isupper_char_def)

section \<open>The suffix rule and the order of the tests\<close>

lemma application_facts:
  "lower ''application'' = ''application'' \<and> ''application'' \<in> set ABSTRACT_WORDS
   \<and> ''application'' \<notin> set PROFANITY \<and> ''application'' \<notin> set SUFFIX_EXCEPTIONS
   \<and> endswith ''application'' ''tion''"
  by (simp add: lower_def lower_char_def isupper_char_def ABSTRACT_WORDS_def PROFANITY_def
      SUFFIX_EXCEPTIONS_def endswith_def suffix_to_prefix)

lemma foundation_facts:
  "lower ''foundation'' = ''foundation'' \<and> ''foundation'' \<notin> set ABSTRACT_WORDS
   \<and> ''foundation'' \<notin> set ABSTRACT_KEYWORDS \<and> ''foundation'' \<notin> set SUFFIX_EXCEPTIONS
   \<and> endswith ''foundation'' ''tion'' \<and> ''tion'' \<in> set ABSTRACT_SUFFIXES"
  by (simp add: lower_def lower_char_def isupper_char_def ABSTRACT_WORDS_def
      ABSTRACT_KEYWORDS_def ABSTRACT_SUFFIXES_def
      SUFFIX_EXCEPTIONS_def endswith_def suffix_to_prefix)

lemma station_facts:
  "lower ''station'' = ''station'' \<and> ''station'' \<notin> set ABSTRACT_WORDS
   \<and> ''station'' \<notin> set ABSTRACT_KEYWORDS \<and> endswith ''station'' ''tion''"
  by (simp add: lower_def lower_char_def isupper_char_def ABSTRACT_WORDS_def
      ABSTRACT_KEYWORDS_def endswith_def suffix_to_prefix)

lemma word_facts:
  "lower ''fucking'' = ''fucking'' \<and> ''fucking'' \<in> set PROFANITY
   \<and> lower ''ability'' = ''ability'' \<and> ''ability'' \<notin> set PROFANITY
   \<and> ''ability'' \<in> set ABSTRACT_WORDS
   \<and> lower ''elephant'' = ''elephant'' \<and> ''elephant'' \<notin> set PROFANITY
   \<and> ''elephant'' \<notin> set ABSTRACT_WORDS \<and> ''elephant'' \<notin> set ABSTRACT_KEYWORDS
   \<and> \<not> (\<exists>sfx\<in>set ABSTRACT_SUFFIXES. endswith ''elephant'' sfx)"
  by (simp add: lower_def lower_char_def isupper_char_def ABSTRACT_WORDS_def PROFANITY_def
      ABSTRACT_KEYWORDS_def ABSTRACT_SUFFIXES_def endswith_def suffix_to_prefix)

text \<open>
  Claim C4. The suffix rule applies only to words longer than 7 characters. For a word of
  at most 7 characters \<open>is_abstract_noun\<close> is decided by the two membership tests alone,
  so the suffix rule never makes it true. A word longer than 7 characters whose lowercase
  form ends with one of \<open>ABSTRACT_SUFFIXES\<close> and is not an exception is abstract. The
  word "application" has 11 characters, the suffix loop returns true on it, and its
  verdict is Abstract. (The code tests the suffix and the exception on the lowercase
  word; a lowercase word is its own lowercase form.)
\<close>

theorem suffix_rule_long_words_only:
  "(length w \<le> 7 \<longrightarrow>
      is_abstract_noun w
        = (lower w \<in> set ABSTRACT_WORDS \<or> lower w \<in> set ABSTRACT_KEYWORDS))
   \<and> (length w > 7 \<and> (\<exists>sfx\<in>set ABSTRACT_SUFFIXES. endswith (lower w) sfx)
        \<and> lower w \<notin> set SUFFIX_EXCEPTIONS \<longrightarrow> is_abstract_noun w)
   \<and> length ''application'' > 7
   \<and> suffix_loop (lower ''application'') ABSTRACT_SUFFIXES
   \<and> is_abstract_noun ''application''
   \<and> should_filter_verdict ''application'' = Abstract"
proof -
  have "''tion'' \<in> set ABSTRACT_SUFFIXES"
    by (simp add: ABSTRACT_SUFFIXES_def)
  then have "suffix_loop (lower ''application'') ABSTRACT_SUFFIXES"
    using application_facts by (auto simp: suffix_loop_iff)
  moreover have "is_abstract_noun ''application''"
    using application_facts by (simp add: is_abstract_noun_iff)
  moreover have "\<not> is_profane ''application''"
    using application_facts by (simp add: is_profane_def)
  ultimately show ?thesis
    by (auto simp: is_abstract_noun_iff should_filter_verdict_def)
qed

text \<open>
  The theorem at "station" (7 characters, ends with "tion", not abstract) and at
  "foundation" (10 characters, ends with "tion", in none of the curated lists, abstract by
  the suffix rule).
\<close>

theorem suffix_rule_long_words_only_witness:
  "length ''station'' \<le> 7 \<and> endswith ''station'' ''tion'' \<and> \<not> is_abstract_noun ''station''
   \<and> length ''foundation'' > 7
   \<and> (\<exists>sfx\<in>set ABSTRACT_SUFFIXES. endswith (lower ''foundation'') sfx)
   \<and> lower ''foundation'' \<notin> set SUFFIX_EXCEPTIONS
   \<and> lower ''foundation'' \<notin> set ABSTRACT_WORDS
   \<and> lower ''foundation'' \<notin> set ABSTRACT_KEYWORDS
   \<and> is_abstract_noun ''foundation''"
proof -
  have ex: "\<exists>sfx\<in>set ABSTRACT_SUFFIXES. endswith (lower ''foundation'') sfx"
    using foundation_facts by auto
  show ?thesis
    using suffix_rule_long_words_only [of "''station''"]
      suffix_rule_long_words_only [of "''foundation''"] ex station_facts foundation_facts
    by simp
qed

text \<open>
  Claim C5. The tests run in the order profanity, abstract words, abstract keywords,
  suffix rule, and the first that matches decides. A word whose lowercase form is in
  \<open>PROFANITY\<close> leaves \<open>should_filter\<close> at the profanity test, whatever the abstract
  tests would say. A word that is not profane and matches one of the three abstract tests
  leaves at the abstract-noun test. A word that matches none of the four is kept.
\<close>

theorem first_match_wins:
  "(lower w \<in> set PROFANITY \<longrightarrow>
      is_profane w \<and> should_filter_verdict w = Profane \<and> should_filter w)
   \<and> (lower w \<notin> set PROFANITY
        \<and> (lower w \<in> set ABSTRACT_WORDS \<or> lower w \<in> set ABSTRACT_KEYWORDS
            \<or> (length w > 7 \<and> (\<exists>sfx\<in>set ABSTRACT_SUFFIXES. endswith (lower w) sfx)
                \<and> lower w \<notin> set SUFFIX_EXCEPTIONS))
        \<longrightarrow> should_filter_verdict w = Abstract \<and> should_filter w)
   \<and> (lower w \<notin> set PROFANITY \<and> lower w \<notin> set ABSTRACT_WORDS
        \<and> lower w \<notin> set ABSTRACT_KEYWORDS
        \<and> \<not> (length w > 7 \<and> (\<exists>sfx\<in>set ABSTRACT_SUFFIXES. endswith (lower w) sfx)
              \<and> lower w \<notin> set SUFFIX_EXCEPTIONS)
        \<longrightarrow> should_filter_verdict w = Keep \<and> \<not> should_filter w)
   \<and> (should_filter w \<longleftrightarrow> should_filter_verdict w \<noteq> Keep)"
  unfolding should_filter_verdict_def should_filter_iff is_abstract_noun_iff is_profane_def
  by auto

text \<open>The theorem at a profane word, at an abstract word and at a word that is kept.\<close>

theorem first_match_wins_witness:
  "lower ''fucking'' \<in> set PROFANITY \<and> should_filter_verdict ''fucking'' = Profane
   \<and> should_filter ''fucking''
   \<and> lower ''ability'' \<notin> set PROFANITY \<and> lower ''ability'' \<in> set ABSTRACT_WORDS
   \<and> should_filter_verdict ''ability'' = Abstract \<and> should_filter ''ability''
   \<and> lower ''elephant'' \<notin> set PROFANITY \<and> should_filter_verdict ''elephant'' = Keep
   \<and> \<not> should_filter ''elephant''"
  using first_match_wins [of "''fucking''"] first_match_wins [of "''ability''"]
    first_match_wins [of "''elephant''"] word_facts
  by simp

section \<open>The loop of main partitions the word list\<close>

lemma main_loop_acc:
  "main_loop words (filtered_words, removed_words) =
     (filtered_words @ filter (\<lambda>w. \<not> should_filter w) words,
      removed_words @ filter should_filter words)"
  by (induction words arbitrary: filtered_words removed_words) simp_all

lemma partition_words_eq:
  "partition_words words
     = (filter (\<lambda>w. \<not> should_filter w) words, filter should_filter words)"
  by (simp add: partition_words_def main_loop_acc)

lemma sample_verdicts:
  "\<not> should_filter ''cat'' \<and> should_filter ''ability'' \<and> should_filter ''shit''
   \<and> \<not> should_filter ''dog''"
  by (simp add: should_filter_iff is_profane_def is_abstract_noun_iff lower_def lower_char_def
      isupper_char_def PROFANITY_def ABSTRACT_WORDS_def ABSTRACT_KEYWORDS_def)

text \<open>
  Claim C7. The loop splits the input by position: the kept list holds the words at the
  positions where \<open>should_filter\<close> is false, the removed list the words at the
  positions where it is true, each in the order of the input. The two sets of positions
  are disjoint and cover the input, so the two lists together have the words of the input
  with their multiplicities, their lengths add up to the input's, each is a subsequence
  of the input, and no word is in both.
\<close>

theorem partition_words_partitions:
  assumes "partition_words words = (kept, removed)"
  shows "kept = nths words {i. i < length words \<and> \<not> should_filter (words ! i)}
     \<and> removed = nths words {i. i < length words \<and> should_filter (words ! i)}
     \<and> mset kept + mset removed = mset words
     \<and> length kept + length removed = length words
     \<and> subseq kept words \<and> subseq removed words
     \<and> kept = filter (\<lambda>w. \<not> should_filter w) words
     \<and> removed = filter should_filter words
     \<and> set kept \<inter> set removed = {}"
proof -
  have k: "kept = filter (\<lambda>w. \<not> should_filter w) words"
    and r: "removed = filter should_filter words"
    using assms by (simp_all add: partition_words_eq)
  have m: "mset kept + mset removed = mset words"
    unfolding k r by (induction words) simp_all
  have l: "length kept + length removed = length words"
    unfolding k r by (induction words) simp_all
  have nk: "kept = nths words {i. i < length words \<and> \<not> should_filter (words ! i)}"
    unfolding k by (rule filter_eq_nths)
  have nr: "removed = nths words {i. i < length words \<and> should_filter (words ! i)}"
    unfolding r by (rule filter_eq_nths)
  have d: "set kept \<inter> set removed = {}"
    unfolding k r by auto
  have sk: "subseq kept words" and sr: "subseq removed words"
    unfolding k r by simp_all
  show ?thesis
    by (intro conjI) (fact nk nr m l sk sr k r d)+
qed

text \<open>The theorem on a list of five words, one of them twice.\<close>

theorem partition_words_partitions_witness:
  "partition_words [''cat'', ''ability'', ''shit'', ''dog'', ''cat'']
     = ([''cat'', ''dog'', ''cat''], [''ability'', ''shit''])
   \<and> mset [''cat'', ''dog'', ''cat''] + mset [''ability'', ''shit'']
       = mset [''cat'', ''ability'', ''shit'', ''dog'', ''cat'']
   \<and> subseq [''cat'', ''dog'', ''cat''] [''cat'', ''ability'', ''shit'', ''dog'', ''cat'']
   \<and> subseq [''ability'', ''shit''] [''cat'', ''ability'', ''shit'', ''dog'', ''cat'']"
proof -
  have p: "partition_words [''cat'', ''ability'', ''shit'', ''dog'', ''cat'']
     = ([''cat'', ''dog'', ''cat''], [''ability'', ''shit''])"
    using sample_verdicts by (simp add: partition_words_def)
  show ?thesis
    using p partition_words_partitions [OF p] by blast
qed

section \<open>The taxonomy-based classifier\<close>

lemma fold_union_paths:
  "fold (\<lambda>path hypernyms. hypernyms \<union> set path) paths acc = acc \<union> \<Union> (set ` set paths)"
  by (induction paths arbitrary: acc) auto

lemma hypernyms_of_ancestors: "hypernyms_of sense = ancestor_categories sense"
  by (simp add: hypernyms_of_def ancestor_categories_def fold_union_paths)

lemma continue_chain:
  "(if A then R else if B then R else if C then R else if D then R else if E then R else True)
     = ((\<not> A \<and> \<not> B \<and> \<not> C \<and> \<not> D \<and> \<not> E) \<or> R)"
  by simp

lemma synset_loop_Cons:
  "synset_loop word (synset # rest) \<longleftrightarrow> sense_qualifies word synset \<or> synset_loop word rest"
  unfolding synset_loop.simps Let_def hypernyms_of_ancestors continue_chain
    sense_qualifies_def list_ex_iff
  by blast

lemma synset_loop_iff:
  "synset_loop word synsets \<longleftrightarrow> (\<exists>sense\<in>set synsets. sense_qualifies word sense)"
  by (induction synsets) (simp_all add: synset_loop_Cons del: synset_loop.simps(2))

lemma is_concrete_noun_iff:
  "is_concrete_noun wn word \<longleftrightarrow> (\<exists>sense\<in>set (wn word). sense_qualifies word sense)"
  by (cases "wn word")
    (simp_all add: is_concrete_noun_def Let_def synset_loop_iff del: synset_loop.simps)

lemma bat_animal_qualifies: "sense_qualifies ''bat'' bat_animal"
  by code_simp

lemma bat_turn_fails: "\<not> sense_qualifies ''bat'' bat_turn"
  by code_simp

text \<open>
  Claim C2. The classifier is a disjunction over the senses of the word: it answers
  Concrete exactly when some noun sense qualifies. A word with two senses of which one
  qualifies is Concrete, whichever comes first and whatever the other sense is. The loop
  returns at the first qualifying sense: once a sense qualifies, the senses after it
  have no influence on the answer.
\<close>

theorem any_sense_concrete:
  "(is_concrete_noun wn word \<longleftrightarrow> (\<exists>sense\<in>set (wn word). sense_qualifies word sense))
   \<and> (sense_qualifies word sense \<and> (wn word = [sense, other] \<or> wn word = [other, sense])
        \<longrightarrow> is_concrete_noun wn word)
   \<and> (sense_qualifies word sense \<longrightarrow> synset_loop word (before @ sense # after))"
  by (auto simp: is_concrete_noun_iff synset_loop_iff)

text \<open>
  The theorem on a word whose first sense is an act and whose second sense is an animal.
\<close>

theorem any_sense_concrete_witness:
  "sense_qualifies ''bat'' bat_animal \<and> \<not> sense_qualifies ''bat'' bat_turn
   \<and> bat_taxonomy ''bat'' = [bat_turn, bat_animal]
   \<and> is_concrete_noun bat_taxonomy ''bat''"
  using any_sense_concrete [of bat_taxonomy "''bat''" bat_animal bat_turn]
    bat_animal_qualifies bat_turn_fails
  by (simp add: bat_taxonomy_def)

text \<open>
  Claim C6. A word with no noun senses in the taxonomy is classified Abstract: the
  classifier returns False, and it returns (the model has no error branch to take,
  because the code performs no operation that can raise on this path).
\<close>

theorem no_senses_abstract: "wn word = [] \<Longrightarrow> is_concrete_noun wn word = False"
  by (simp add: is_concrete_noun_def)

theorem no_senses_abstract_witness:
  "no_senses ''zyzzyva'' = [] \<and> is_concrete_noun no_senses ''zyzzyva'' = False"
  using no_senses_abstract [of no_senses "''zyzzyva''"] by (simp add: no_senses_def)

section \<open>The word-validity filter\<close>

lemma is_valid_word_eq:
  "is_valid_word wn word =
     Inr (word \<noteq> [] \<and> (\<forall>c\<in>set word. isalpha_char c) \<and> \<not> isupper_char (hd word)
          \<and> \<not> (wn word \<noteq> [] \<and> (\<forall>sense\<in>set (wn word). instance_hypernyms sense \<noteq> [])))"
  by (cases word) (auto simp: is_valid_word_def isalpha_def all_proper_def list_all_iff Let_def)

text \<open>
  Claim C3, as amended. The filter accepts a token exactly when the token is not empty
  and all its characters are alphabetic, its first character is not uppercase, and it is
  not the case that the token has at least one noun sense and all its noun senses are
  named-instance senses. So a token without any sense passes the third test. "Paris" and
  "7up" are rejected in every taxonomy; "chair" is accepted unless the taxonomy has
  senses for it that are all named instances.
\<close>

theorem is_valid_word_characterisation:
  "is_valid_word wn word =
     Inr (word \<noteq> [] \<and> (\<forall>c\<in>set word. isalpha_char c) \<and> \<not> isupper_char (hd word)
          \<and> \<not> (wn word \<noteq> [] \<and> (\<forall>sense\<in>set (wn word). instance_hypernyms sense \<noteq> [])))
   \<and> is_valid_word wn ''Paris'' = Inr False
   \<and> is_valid_word wn ''7up'' = Inr False
   \<and> is_valid_word wn ''chair''
       = Inr (\<not> (wn ''chair'' \<noteq> []
                 \<and> (\<forall>sense\<in>set (wn ''chair''). instance_hypernyms sense \<noteq> [])))"
proof (intro conjI)
  show "is_valid_word wn ''Paris'' = Inr False"
    by (simp add: is_valid_word_eq isupper_char_def)
  show "is_valid_word wn ''7up'' = Inr False"
    by (simp add: is_valid_word_eq isalpha_char_def)
  show "is_valid_word wn ''chair''
       = Inr (\<not> (wn ''chair'' \<noteq> []
                 \<and> (\<forall>sense\<in>set (wn ''chair''). instance_hypernyms sense \<noteq> [])))"
    by (simp add: is_valid_word_eq isalpha_char_def isupper_char_def)
qed (rule is_valid_word_eq)

text \<open>The theorem on a word with two senses, neither of them a named instance.\<close>

theorem is_valid_word_characterisation_witness:
  "bat_taxonomy ''bat'' \<noteq> [] \<and> \<not> all_proper (bat_taxonomy ''bat'')
   \<and> is_valid_word bat_taxonomy ''bat'' = Inr True
   \<and> is_valid_word bat_taxonomy ''Paris'' = Inr False"
  using is_valid_word_characterisation [of bat_taxonomy "''bat''"]
  by (simp add: bat_taxonomy_def bat_turn_def bat_animal_def all_proper_def isalpha_char_def
      isupper_char_def)

text \<open>
  The claim as it was stated fails at a token without senses: every one of its senses is
  a named instance, there being none, and the filter accepts it.
\<close>

theorem valid_without_senses_counterexample:
  "all_proper (no_senses ''zzz'') \<and> is_valid_word no_senses ''zzz'' = Inr True"
  by (simp add: all_proper_def no_senses_def is_valid_word_def isalpha_def isalpha_char_def
      isupper_char_def)

text \<open>
  Claim C10. A token that is not empty, all alphabetic, not uppercase at its first
  character, and without noun senses in the taxonomy is accepted by the filter.
\<close>

theorem valid_unknown_word:
  "word \<noteq> [] \<and> (\<forall>c\<in>set word. isalpha_char c) \<and> \<not> isupper_char (hd word) \<and> wn word = []
   \<Longrightarrow> is_valid_word wn word = Inr True"
  by (simp add: is_valid_word_eq)

theorem valid_unknown_word_witness:
  "''qwxz'' \<noteq> [] \<and> list_all isalpha_char ''qwxz'' \<and> \<not> isupper_char (hd ''qwxz'')
   \<and> no_senses ''qwxz'' = [] \<and> is_valid_word no_senses ''qwxz'' = Inr True"
proof -
  have h: "''qwxz'' \<noteq> [] \<and> list_all isalpha_char ''qwxz'' \<and> \<not> isupper_char (hd ''qwxz'')
      \<and> no_senses ''qwxz'' = []"
    by (simp add: isalpha_char_def isupper_char_def no_senses_def)
  show ?thesis
    using h valid_unknown_word [of "''qwxz''" no_senses] by (simp add: list_all_iff)
qed

section \<open>No call raises\<close>

lemma gizmo_facts:
  "lower ''gizmo'' = ''gizmo'' \<and> ''gizmo'' \<notin> set PROFANITY
   \<and> ''gizmo'' \<notin> set ABSTRACT_WORDS \<and> ''gizmo'' \<notin> set ABSTRACT_KEYWORDS
   \<and> \<not> (\<exists>sfx\<in>set ABSTRACT_SUFFIXES. endswith ''gizmo'' sfx)
   \<and> isalpha ''gizmo'' \<and> \<not> isupper_char (hd ''gizmo'')"
  by (simp add: lower_def lower_char_def isupper_char_def isalpha_def isalpha_char_def
      ABSTRACT_WORDS_def PROFANITY_def ABSTRACT_KEYWORDS_def ABSTRACT_SUFFIXES_def
      endswith_def suffix_to_prefix)

text \<open>
  Claim C8, as amended. No call raises, for any token and so for every lowercase
  alphabetic one. \<open>is_valid_word\<close> is the only one of the five functions with an
  operation that can raise, the indexing \<open>word[0]\<close>, and it returns a truth value: the
  empty token is rejected before it is indexed. The other four functions return the
  truth value of their tests. What missing information degrades to depends on the
  function. A word without noun senses is excluded by \<open>is_concrete_noun\<close>. The same
  word, when alphabetic and not uppercase at its first character, is accepted by
  \<open>is_valid_word\<close>. A word that is in none of the curated lists and ends with none of
  the suffixes is kept by \<open>should_filter\<close>.
\<close>

theorem classifiers_total:
  "(\<exists>verdict. is_valid_word wn word = Inr verdict)
   \<and> is_profane word = (lower word \<in> set PROFANITY)
   \<and> is_abstract_noun word
       = (lower word \<in> set ABSTRACT_WORDS \<or> lower word \<in> set ABSTRACT_KEYWORDS
          \<or> (length word > 7 \<and> lower word \<notin> set SUFFIX_EXCEPTIONS
              \<and> (\<exists>sfx\<in>set ABSTRACT_SUFFIXES. endswith (lower word) sfx)))
   \<and> should_filter word = (is_profane word \<or> is_abstract_noun word)
   \<and> is_concrete_noun wn word = (\<exists>sense\<in>set (wn word). sense_qualifies word sense)
   \<and> (wn word = [] \<longrightarrow> is_concrete_noun wn word = False)
   \<and> (wn word = [] \<and> isalpha word \<and> \<not> isupper_char (hd word)
        \<longrightarrow> is_valid_word wn word = Inr True)
   \<and> (lower word \<notin> set PROFANITY \<and> lower word \<notin> set ABSTRACT_WORDS
        \<and> lower word \<notin> set ABSTRACT_KEYWORDS
        \<and> \<not> (\<exists>sfx\<in>set ABSTRACT_SUFFIXES. endswith (lower word) sfx)
        \<longrightarrow> should_filter word = False)"
proof (intro conjI impI)
  show "\<exists>verdict. is_valid_word wn word = Inr verdict"
    by (simp add: is_valid_word_eq)
  show "is_profane word = (lower word \<in> set PROFANITY)"
    by (simp add: is_profane_def)
  show "is_abstract_noun word
       = (lower word \<in> set ABSTRACT_WORDS \<or> lower word \<in> set ABSTRACT_KEYWORDS
          \<or> (length word > 7 \<and> lower word \<notin> set SUFFIX_EXCEPTIONS
              \<and> (\<exists>sfx\<in>set ABSTRACT_SUFFIXES. endswith (lower word) sfx)))"
    by (rule is_abstract_noun_iff)
  show "should_filter word = (is_profane word \<or> is_abstract_noun word)"
    by (rule should_filter_iff)
  show "is_concrete_noun wn word = (\<exists>sense\<in>set (wn word). sense_qualifies word sense)"
    by (rule is_concrete_noun_iff)
next
  assume "wn word = []"
  then show "is_concrete_noun wn word = False"
    by (simp add: is_concrete_noun_def)
next
  assume "wn word = [] \<and> isalpha word \<and> \<not> isupper_char (hd word)"
  then show "is_valid_word wn word = Inr True"
    by (simp add: is_valid_word_eq isalpha_def list_all_iff)
next
  assume "lower word \<notin> set PROFANITY \<and> lower word \<notin> set ABSTRACT_WORDS
        \<and> lower word \<notin> set ABSTRACT_KEYWORDS
        \<and> \<not> (\<exists>sfx\<in>set ABSTRACT_SUFFIXES. endswith (lower word) sfx)"
  then show "should_filter word = False"
    by (simp add: should_filter_iff is_profane_def is_abstract_noun_iff)
qed

text \<open>
  The theorem on the empty token, which is rejected and not indexed, and on a lowercase
  token that has no senses and is in none of the curated lists.
\<close>

theorem classifiers_total_witness:
  "is_valid_word no_senses [] = Inr False
   \<and> no_senses ''gizmo'' = [] \<and> isalpha ''gizmo'' \<and> \<not> isupper_char (hd ''gizmo'')
   \<and> lower ''gizmo'' \<notin> set PROFANITY \<and> lower ''gizmo'' \<notin> set ABSTRACT_WORDS
   \<and> lower ''gizmo'' \<notin> set ABSTRACT_KEYWORDS
   \<and> is_concrete_noun no_senses ''gizmo'' = False
   \<and> is_valid_word no_senses ''gizmo'' = Inr True
   \<and> should_filter ''gizmo'' = False"
proof -
  have e: "is_valid_word no_senses [] = Inr False"
    using classifiers_total [of no_senses "[]"] by (simp add: is_valid_word_def isalpha_def)
  have n: "no_senses ''gizmo'' = []"
    by (simp add: no_senses_def)
  show ?thesis
    using e n gizmo_facts classifiers_total [of no_senses "''gizmo''"] by simp
qed

text \<open>
  The claim as it was stated fails at "qwxz": the taxonomy has no sense for it and no
  curated list contains it, and yet \<open>is_valid_word\<close> accepts it and \<open>should_filter\<close>
  keeps it, where the claim promises an exclude verdict.
\<close>

theorem missing_information_counterexample:
  "no_senses ''qwxz'' = [] \<and> lower ''qwxz'' \<notin> set PROFANITY
   \<and> lower ''qwxz'' \<notin> set ABSTRACT_WORDS \<and> lower ''qwxz'' \<notin> set ABSTRACT_KEYWORDS
   \<and> is_valid_word no_senses ''qwxz'' = Inr True \<and> should_filter ''qwxz'' = False"
  by (simp add: no_senses_def is_valid_word_def isalpha_def isalpha_char_def isupper_char_def
      should_filter_iff is_profane_def is_abstract_noun_iff lower_def lower_char_def
      PROFANITY_def ABSTRACT_WORDS_def ABSTRACT_KEYWORDS_def)

end
